theory Spec2Isabelle
  imports Main
begin

section \<open>Values of the program\<close>

text \<open>
  The program handles JSON-shaped Python values: the decoded claim set of a token, the
  dictionaries the handlers return and the bodies of the responses. Python's \<open>None\<close>
  is \<open>JNull\<close>. A dictionary is an association list in insertion order, read through
  \<open>map_of\<close>.
\<close>

datatype json =
    JNull
  | JBool bool
  | JNum int
  | JStr string
  | JArr "json list"
  | JObj "(string \<times> json) list"

type_synonym dict = "(string \<times> json) list"

text \<open>An exception that derives from Python's \<open>Exception\<close>: its class name and \<open>str(e)\<close>.\<close>

datatype py_exception = PyException (exc_class: string) (exc_str: string)

text \<open>\<open>d.get(k)\<close>: the value under the key, \<open>None\<close> when the key is missing.\<close>

definition dict_get :: "dict \<Rightarrow> string \<Rightarrow> json" where
  "dict_get d k = (case map_of d k of None \<Rightarrow> JNull | Some v \<Rightarrow> v)"

text \<open>\<open>d[k]\<close>: the value under the key, \<open>KeyError\<close> when the key is missing.\<close>

definition dict_item :: "dict \<Rightarrow> string \<Rightarrow> py_exception + json" where
  "dict_item d k =
     (case map_of d k of
        None \<Rightarrow> Inl (PyException ''KeyError'' ([CHR 0x27] @ k @ [CHR 0x27]))
      | Some v \<Rightarrow> Inr v)"

text \<open>\<open>fastapi.HTTPException(status_code=..., detail=...)\<close>.\<close>

record HTTPException =
  status_code :: nat
  detail :: string

text \<open>\<open>fastapi.security.HTTPAuthorizationCredentials\<close>.\<close>

record HTTPAuthorizationCredentials =
  scheme :: string
  credentials :: string

section \<open>auth\_utils.py\<close>

subsection \<open>Initialisation of the verification backend\<close>

datatype credential = Credential string

text \<open>
  What the module reads from the operating system when it is imported: the environment,
  whether a path exists, and \<open>credentials.Certificate(path)\<close>, which loads the file or
  raises.
\<close>

record os_env =
  environ :: "string \<rightharpoonup> string"
  path_exists :: "string \<Rightarrow> bool"
  Certificate :: "string \<Rightarrow> py_exception + credential"

text \<open>
  The process-wide state the module leaves behind: the provider library's default app
  (absent until \<open>initialize_app\<close> has run) and what was printed.
\<close>

record process =
  firebase_app :: "credential option"
  stdout :: "string list"

definition cred_path :: "os_env \<Rightarrow> string" where
  "cred_path os =
     (case environ os ''FIREBASE_ADMIN_CREDENTIALS'' of
        None \<Rightarrow> ''firebase-admin-key.json''
      | Some p \<Rightarrow> p)"

text \<open>
  Lines 8 to 13, run once when the module is imported into a fresh process (no default app
  exists yet, so \<open>initialize_app\<close> registers the credential).
\<close>

definition startup :: "os_env \<Rightarrow> py_exception + process" where
  "startup os =
     (if path_exists os (cred_path os) then
        (case Certificate os (cred_path os) of
           Inl e \<Rightarrow> Inl e
         | Inr cred \<Rightarrow> Inr \<lparr>firebase_app = Some cred, stdout = []\<rparr>)
      else
        Inr \<lparr>firebase_app = None,
             stdout = [''Warning: Firebase Admin credentials not found. Authentication will be disabled.'']\<rparr>)"

subsection \<open>The identity provider's client library\<close>

text \<open>
  The provider's own check of a token (signature, expiry, issuer, audience) against the
  registered credential. Its answer depends on the world outside the process (the clock,
  the provider's keys), which is the parameter \<open>'w\<close>. It raises or returns the decoded
  claim set. \<open>no_app_error\<close> is the exception the library raises when no app was
  initialised.
\<close>

record 'w provider =
  check_token :: "credential \<Rightarrow> 'w \<Rightarrow> string \<Rightarrow> py_exception + dict"
  no_app_error :: py_exception

text \<open>
  Modelled from the spec: \<open>auth.verify_id_token\<close> belongs to the identity provider's
  client library, which is not part of the repository. By section 4.2 of the spec it
  delegates to the provider's verification and returns the decoded claim set on success,
  and an uninitialised verification backend is one of its failures.
\<close>

definition verify_id_token ::
  "'w provider \<Rightarrow> credential option \<Rightarrow> 'w \<Rightarrow> string \<Rightarrow> py_exception + dict" where
  "verify_id_token p app w token =
     (case app of
        None \<Rightarrow> Inl (no_app_error p)
      | Some cred \<Rightarrow> check_token p cred w token)"

subsection \<open>The Token Verifier\<close>

text \<open>
  The body of \<open>verify_firebase_token\<close>, entered once the \<open>security\<close> dependency has
  produced the credentials. Every \<open>Exception\<close> of the \<open>try\<close> block becomes the
  \<open>HTTPException\<close> of the \<open>except\<close> block.
\<close>

definition verify_firebase_token ::
  "'w provider \<Rightarrow> process \<Rightarrow> 'w \<Rightarrow> HTTPAuthorizationCredentials \<Rightarrow> HTTPException + dict" where
  "verify_firebase_token p s w creds =
     (let token = credentials creds in
      case verify_id_token p (firebase_app s) w token of
        Inr decoded_token \<Rightarrow> Inr decoded_token
      | Inl e \<Rightarrow>
          Inl \<lparr>status_code = 401,
               detail = ''Invalid authentication credentials: '' @ exc_str e\<rparr>)"

definition get_current_user :: "dict \<Rightarrow> dict" where
  "get_current_user token_data =
     [(''uid'', dict_get token_data ''uid''),
      (''email'', dict_get token_data ''email''),
      (''name'', dict_get token_data ''name''),
      (''picture'', dict_get token_data ''picture'')]"

subsection \<open>Resolution of the dependencies\<close>

text \<open>
  \<open>security = HTTPBearer()\<close> is the framework's bearer scheme, with its default of
  raising when it finds no credentials: given the request's Authorization header it raises
  an \<open>HTTPException\<close> or returns the credentials. The scheme is the framework's code, so
  it is a parameter here.
\<close>

type_synonym HTTPBearer = "string option \<Rightarrow> HTTPException + HTTPAuthorizationCredentials"

record request =
  http_method :: string
  path :: string
  authorization :: "string option"

text \<open>The trace of a request: which functions were entered, in order.\<close>

datatype event = Entered string

text \<open>
  \<open>Depends(security)\<close> is resolved before the body of \<open>verify_firebase_token\<close> runs, so
  an exception of the scheme is outside its \<open>try\<close> block.
\<close>

definition resolve_verify_firebase_token ::
  "HTTPBearer \<Rightarrow> 'w provider \<Rightarrow> process \<Rightarrow> 'w \<Rightarrow> request
     \<Rightarrow> (HTTPException + dict) \<times> event list" where
  "resolve_verify_firebase_token security p s w req =
     (case security (authorization req) of
        Inl h \<Rightarrow> (Inl h, [Entered ''security''])
      | Inr creds \<Rightarrow>
          (verify_firebase_token p s w creds,
           [Entered ''security'', Entered ''verify_firebase_token'']))"

definition resolve_get_current_user ::
  "HTTPBearer \<Rightarrow> 'w provider \<Rightarrow> process \<Rightarrow> 'w \<Rightarrow> request
     \<Rightarrow> (HTTPException + dict) \<times> event list" where
  "resolve_get_current_user security p s w req =
     (case resolve_verify_firebase_token security p s w req of
        (Inl h, tr) \<Rightarrow> (Inl h, tr)
      | (Inr token_data, tr) \<Rightarrow>
          (Inr (get_current_user token_data), tr @ [Entered ''get_current_user'']))"

section \<open>main.py\<close>

definition read_root :: dict where
  "read_root = [(''message'', JStr ''HealthScan AI Backend API'')]"

definition health_check :: dict where
  "health_check = [(''status'', JStr ''healthy'')]"

definition protected_route :: "dict \<Rightarrow> dict" where
  "protected_route current_user =
     [(''message'', JStr ''This is a protected route''),
      (''user'', JObj current_user)]"

definition get_user_profile :: "dict \<Rightarrow> py_exception + dict" where
  "get_user_profile current_user =
     (case dict_item current_user ''uid'' of
        Inl e \<Rightarrow> Inl e
      | Inr uid \<Rightarrow>
     (case dict_item current_user ''email'' of
        Inl e \<Rightarrow> Inl e
      | Inr email \<Rightarrow>
     (case dict_item current_user ''name'' of
        Inl e \<Rightarrow> Inl e
      | Inr name \<Rightarrow>
     (case dict_item current_user ''picture'' of
        Inl e \<Rightarrow> Inl e
      | Inr picture \<Rightarrow>
          Inr [(''uid'', uid), (''email'', email), (''name'', name), (''picture'', picture)]))))"

subsection \<open>The router\<close>

record response =
  status :: nat
  body :: json

text \<open>A dictionary returned by a handler is sent as JSON with status 200.\<close>

definition json_response :: "dict \<Rightarrow> response" where
  "json_response d = \<lparr>status = 200, body = JObj d\<rparr>"

text \<open>An \<open>HTTPException\<close> is sent with its status and its detail.\<close>

definition http_exception_response :: "HTTPException \<Rightarrow> response" where
  "http_exception_response h =
     \<lparr>status = status_code h, body = JObj [(''detail'', JStr (detail h))]\<rparr>"

text \<open>Any other exception of a handler is sent as a server error.\<close>

definition server_error_response :: response where
  "server_error_response = \<lparr>status = 500, body = JStr ''Internal Server Error''\<rparr>"

datatype route = ReadRoot | HealthCheck | ProtectedRoute | GetUserProfile

text \<open>The four \<open>@app.get\<close> registrations.\<close>

definition routes :: "((string \<times> string) \<times> route) list" where
  "routes =
     [((''GET'', ''/''), ReadRoot),
      ((''GET'', ''/health''), HealthCheck),
      ((''GET'', ''/api/protected''), ProtectedRoute),
      ((''GET'', ''/api/user/profile''), GetUserProfile)]"

text \<open>
  Serving a route: its dependencies are resolved first, and the handler is entered only
  with their values.
\<close>

definition serve ::
  "HTTPBearer \<Rightarrow> 'w provider \<Rightarrow> process \<Rightarrow> 'w \<Rightarrow> route \<Rightarrow> request
     \<Rightarrow> response \<times> event list" where
  "serve security p s w r req =
     (case r of
        ReadRoot \<Rightarrow> (json_response read_root, [Entered ''read_root''])
      | HealthCheck \<Rightarrow> (json_response health_check, [Entered ''health_check''])
      | ProtectedRoute \<Rightarrow>
          (case resolve_get_current_user security p s w req of
             (Inl h, tr) \<Rightarrow> (http_exception_response h, tr)
           | (Inr current_user, tr) \<Rightarrow>
               (json_response (protected_route current_user),
                tr @ [Entered ''protected_route'']))
      | GetUserProfile \<Rightarrow>
          (case resolve_get_current_user security p s w req of
             (Inl h, tr) \<Rightarrow> (http_exception_response h, tr)
           | (Inr current_user, tr) \<Rightarrow>
               (case get_user_profile current_user of
                  Inl e \<Rightarrow> (server_error_response, tr @ [Entered ''get_user_profile''])
                | Inr d \<Rightarrow> (json_response d, tr @ [Entered ''get_user_profile'']))))"

text \<open>A request is served by the route registered for its method and path, if there is one.\<close>

definition handle ::
  "HTTPBearer \<Rightarrow> 'w provider \<Rightarrow> process \<Rightarrow> 'w \<Rightarrow> request
     \<Rightarrow> (response \<times> event list) option" where
  "handle security p s w req =
     (case map_of routes (http_method req, path req) of
        None \<Rightarrow> None
      | Some r \<Rightarrow> Some (serve security p s w r req))"

text \<open>Reading a field of a JSON object.\<close>

definition json_field :: "json \<Rightarrow> string \<Rightarrow> json option" where
  "json_field j k = (case j of JObj d \<Rightarrow> map_of d k | _ \<Rightarrow> None)"

section \<open>Sample inputs\<close>

text \<open>
  A provider that accepts the token \<open>tok-ada\<close> until its expiry at time 3600 and rejects
  everything else; the outside world is the clock.
\<close>

definition sample_claims :: dict where
  "sample_claims =
     [(''iss'', JStr ''https://securetoken.example/healthscan''),
      (''sub'', JStr ''u-ada''),
      (''exp'', JNum 3600),
      (''email'', JStr ''ada@example.org''),
      (''uid'', JStr ''u-ada'')]"

definition sample_provider :: "nat provider" where
  "sample_provider =
     \<lparr>check_token = (\<lambda>cred now token.
          if token = ''tok-ada'' \<and> now < 3600 then Inr sample_claims
          else Inl (PyException ''InvalidIdTokenError'' ''Token expired'')),
      no_app_error = PyException ''ValueError'' ''The default Firebase app does not exist.''\<rparr>"

text \<open>
  A bearer scheme that returns what follows \<open>Bearer\<close> in the header and answers every
  other request with the given exception.
\<close>

definition sample_security :: "HTTPException \<Rightarrow> HTTPBearer" where
  "sample_security rejection hdr =
     (case hdr of
        None \<Rightarrow> Inl rejection
      | Some v \<Rightarrow>
          if take 7 v = ''Bearer '' \<and> drop 7 v \<noteq> [] then
            Inr \<lparr>scheme = ''Bearer'', credentials = drop 7 v\<rparr>
          else Inl rejection)"



definition sample_rejection :: HTTPException where
  "sample_rejection = \<lparr>status_code = 403, detail = ''Not authenticated''\<rparr>"

definition sample_process :: process where
  "sample_process = \<lparr>firebase_app = Some (Credential ''service-account''), stdout = []\<rparr>"

definition sample_request :: "string \<Rightarrow> string option \<Rightarrow> request" where
  "sample_request pth hdr = \<lparr>http_method = ''GET'', path = pth, authorization = hdr\<rparr>"

section \<open>Properties\<close>

subsection \<open>How the router reaches the handlers\<close>

lemma handle_root:
  "http_method req = ''GET'' \<Longrightarrow> path req = ''/'' \<Longrightarrow>
   handle security p s w req = Some (serve security p s w ReadRoot req)"
  by (simp add: handle_def routes_def)

lemma handle_health:
  "http_method req = ''GET'' \<Longrightarrow> path req = ''/health'' \<Longrightarrow>
   handle security p s w req = Some (serve security p s w HealthCheck req)"
  by (simp add: handle_def routes_def)

lemma handle_protected:
  "http_method req = ''GET'' \<Longrightarrow> path req = ''/api/protected'' \<Longrightarrow>
   handle security p s w req = Some (serve security p s w ProtectedRoute req)"
  by (simp add: handle_def routes_def)

lemma handle_profile:
  "http_method req = ''GET'' \<Longrightarrow> path req = ''/api/user/profile'' \<Longrightarrow>
   handle security p s w req = Some (serve security p s w GetUserProfile req)"
  by (simp add: handle_def routes_def)

lemma verify_firebase_token_success:
  "verify_id_token p (firebase_app s) w (credentials creds) = Inr claims \<Longrightarrow>
   verify_firebase_token p s w creds = Inr claims"
  by (simp add: verify_firebase_token_def)

lemma resolve_get_current_user_success:
  assumes "security (authorization req) = Inr creds"
    and "verify_id_token p (firebase_app s) w (credentials creds) = Inr claims"
  shows "resolve_get_current_user security p s w req =
           (Inr (get_current_user claims),
            [Entered ''security'', Entered ''verify_firebase_token'',
             Entered ''get_current_user''])"
  using assms
  by (simp add: resolve_get_current_user_def resolve_verify_firebase_token_def
        verify_firebase_token_success)

lemma dict_get_get_current_user:
  "dict_get (get_current_user c) ''uid'' = dict_get c ''uid''"
  "dict_get (get_current_user c) ''email'' = dict_get c ''email''"
  "dict_get (get_current_user c) ''name'' = dict_get c ''name''"
  "dict_get (get_current_user c) ''picture'' = dict_get c ''picture''"
  by (simp_all add: get_current_user_def dict_get_def)

lemma get_user_profile_get_current_user:
  "get_user_profile (get_current_user c) = Inr (get_current_user c)"
  by (simp add: get_user_profile_def get_current_user_def dict_item_def)

lemma serve_protected_success:
  assumes "security (authorization req) = Inr creds"
    and "verify_id_token p (firebase_app s) w (credentials creds) = Inr claims"
  shows "serve security p s w ProtectedRoute req =
           (\<lparr>status = 200,
             body = JObj [(''message'', JStr ''This is a protected route''),
                          (''user'', JObj (get_current_user claims))]\<rparr>,
            [Entered ''security'', Entered ''verify_firebase_token'',
             Entered ''get_current_user'', Entered ''protected_route''])"
  by (simp add: serve_def resolve_get_current_user_success [where security = security and req = req, OF assms]
        json_response_def protected_route_def)

lemma serve_profile_success:
  assumes "security (authorization req) = Inr creds"
    and "verify_id_token p (firebase_app s) w (credentials creds) = Inr claims"
  shows "serve security p s w GetUserProfile req =
           (\<lparr>status = 200, body = JObj (get_current_user claims)\<rparr>,
            [Entered ''security'', Entered ''verify_firebase_token'',
             Entered ''get_current_user'', Entered ''get_user_profile''])"
  by (simp add: serve_def resolve_get_current_user_success [where security = security and req = req, OF assms]
        json_response_def get_user_profile_get_current_user)

lemma sample_accepts:
  "now < 3600 \<Longrightarrow>
   sample_security r (authorization (sample_request pth (Some ''Bearer tok-ada'')))
     = Inr \<lparr>scheme = ''Bearer'', credentials = ''tok-ada''\<rparr>
   \<and> verify_id_token sample_provider (firebase_app sample_process) now ''tok-ada''
     = Inr sample_claims"
  by (simp add: sample_security_def sample_request_def verify_id_token_def
        sample_provider_def sample_process_def)



subsection \<open>The claims\<close>




text \<open>
  C2. Whenever the provider's verification of a bearer token raises, for whatever reason
  (the uninitialised backend included), \<open>verify_firebase_token\<close> raises the
  \<open>HTTPException\<close> with status 401 whose detail is
  \<open>Invalid authentication credentials: \<close> followed by the description of the failure;
  and every exception it raises has status 401 and a detail of that form.
\<close>

theorem verify_firebase_token_failure:
  "(verify_id_token p (firebase_app s) w (credentials creds) = Inl e \<longrightarrow>
      verify_firebase_token p s w creds
        = Inl \<lparr>status_code = 401,
               detail = ''Invalid authentication credentials: '' @ exc_str e\<rparr>)
   \<and> (verify_firebase_token p s w creds = Inl h \<longrightarrow>
        status_code h = 401
        \<and> (\<exists>e'. verify_id_token p (firebase_app s) w (credentials creds) = Inl e'
              \<and> detail h = ''Invalid authentication credentials: '' @ exc_str e'))"
  by (auto simp: verify_firebase_token_def split: sum.splits)

theorem verify_firebase_token_failure_witness:
  "verify_id_token sample_provider (firebase_app sample_process) 4000 (credentials \<lparr>scheme = ''Bearer'', credentials = ''tok-ada''\<rparr>)
     = Inl (PyException ''InvalidIdTokenError'' ''Token expired'')
   \<and> verify_firebase_token sample_provider sample_process 4000 \<lparr>scheme = ''Bearer'', credentials = ''tok-ada''\<rparr>
     = Inl \<lparr>status_code = 401,
            detail = ''Invalid authentication credentials: Token expired''\<rparr>
   \<and> verify_id_token sample_provider (firebase_app \<lparr>firebase_app = None, stdout = []\<rparr>)
        0 (credentials \<lparr>scheme = ''Bearer'', credentials = ''tok-ada''\<rparr>)
     = Inl (PyException ''ValueError'' ''The default Firebase app does not exist.'')
   \<and> verify_firebase_token sample_provider \<lparr>firebase_app = None, stdout = []\<rparr> 0 \<lparr>scheme = ''Bearer'', credentials = ''tok-ada''\<rparr>
     = Inl \<lparr>status_code = 401,
            detail = ''Invalid authentication credentials: The default Firebase app does not exist.''\<rparr>"
proof -
  have a: "verify_id_token sample_provider (firebase_app sample_process) 4000
             (credentials \<lparr>scheme = ''Bearer'', credentials = ''tok-ada''\<rparr>)
           = Inl (PyException ''InvalidIdTokenError'' ''Token expired'')"
    by (simp add: verify_id_token_def sample_provider_def sample_process_def)
  have b: "verify_id_token sample_provider
             (firebase_app \<lparr>firebase_app = None, stdout = []\<rparr>) 0 (credentials \<lparr>scheme = ''Bearer'', credentials = ''tok-ada''\<rparr>)
           = Inl (PyException ''ValueError'' ''The default Firebase app does not exist.'')"
    by (simp add: verify_id_token_def sample_provider_def)
  from a b
    verify_firebase_token_failure
      [of sample_provider sample_process 4000 "\<lparr>scheme = ''Bearer'', credentials = ''tok-ada''\<rparr>"
          "PyException ''InvalidIdTokenError'' ''Token expired''"]
    verify_firebase_token_failure
      [of sample_provider "\<lparr>firebase_app = None, stdout = []\<rparr>" 0 "\<lparr>scheme = ''Bearer'', credentials = ''tok-ada''\<rparr>"
          "PyException ''ValueError'' ''The default Firebase app does not exist.''"]
  show ?thesis by simp
qed

text \<open>
  C4. When the Token Verifier fails on a GET request to /api/protected or
  /api/user/profile (the resolution of \<open>verify_firebase_token\<close> ends in an exception,
  raised by the bearer scheme or by the function itself), the response carries the status
  and the detail of that exception, and the request's trace is the trace of the failed
  resolution: neither handler and not \<open>get_current_user\<close> is entered.
\<close>

theorem verifier_failure_short_circuits:
  assumes "http_method req = ''GET''"
    and "path req = ''/api/protected'' \<or> path req = ''/api/user/profile''"
    and "resolve_verify_firebase_token security p s w req = (Inl h, tr)"
  shows "handle security p s w req
           = Some (\<lparr>status = status_code h, body = JObj [(''detail'', JStr (detail h))]\<rparr>, tr)
       \<and> Entered ''protected_route'' \<notin> set tr
       \<and> Entered ''get_user_profile'' \<notin> set tr
       \<and> Entered ''get_current_user'' \<notin> set tr"
proof -
  have res: "resolve_get_current_user security p s w req = (Inl h, tr)"
    using assms(3) by (simp add: resolve_get_current_user_def)
  have tr: "tr = [Entered ''security'']
            \<or> tr = [Entered ''security'', Entered ''verify_firebase_token'']"
    using assms(3)
    by (auto simp: resolve_verify_firebase_token_def split: sum.splits)
  have "handle security p s w req
          = Some (\<lparr>status = status_code h, body = JObj [(''detail'', JStr (detail h))]\<rparr>, tr)"
    using assms(2)
  proof
    assume "path req = ''/api/protected''"
    with assms(1) have "handle security p s w req
        = Some (serve security p s w ProtectedRoute req)"
      by (rule handle_protected)
    then show ?thesis
      by (simp add: serve_def res http_exception_response_def)
  next
    assume "path req = ''/api/user/profile''"
    with assms(1) have "handle security p s w req
        = Some (serve security p s w GetUserProfile req)"
      by (rule handle_profile)
    then show ?thesis
      by (simp add: serve_def res http_exception_response_def)
  qed
  moreover from tr have "Entered ''protected_route'' \<notin> set tr
       \<and> Entered ''get_user_profile'' \<notin> set tr
       \<and> Entered ''get_current_user'' \<notin> set tr"
    by auto
  ultimately show ?thesis by simp
qed

theorem verifier_failure_short_circuits_witness:
  "http_method (sample_request ''/api/user/profile'' None) = ''GET''
   \<and> path (sample_request ''/api/user/profile'' None) = ''/api/user/profile''
   \<and> resolve_verify_firebase_token (sample_security sample_rejection) sample_provider sample_process 0
        (sample_request ''/api/user/profile'' None)
       = (Inl sample_rejection, [Entered ''security''])
   \<and> handle (sample_security sample_rejection) sample_provider sample_process 0 (sample_request ''/api/user/profile'' None)
       = Some (\<lparr>status = 403, body = JObj [(''detail'', JStr ''Not authenticated'')]\<rparr>,
               [Entered ''security''])
   \<and> http_method (sample_request ''/api/protected'' (Some ''Bearer tok-ada'')) = ''GET''
   \<and> path (sample_request ''/api/protected'' (Some ''Bearer tok-ada'')) = ''/api/protected''
   \<and> resolve_verify_firebase_token (sample_security sample_rejection) sample_provider sample_process 4000 (sample_request ''/api/protected'' (Some ''Bearer tok-ada''))
       = (Inl \<lparr>status_code = 401,
                detail = ''Invalid authentication credentials: Token expired''\<rparr>,
          [Entered ''security'', Entered ''verify_firebase_token''])
   \<and> handle (sample_security sample_rejection) sample_provider sample_process 4000 (sample_request ''/api/protected'' (Some ''Bearer tok-ada''))
       = Some (\<lparr>status = 401,
                body = JObj [(''detail'',
                  JStr ''Invalid authentication credentials: Token expired'')]\<rparr>,
               [Entered ''security'', Entered ''verify_firebase_token''])"
proof -
  let ?r1 = "sample_request ''/api/user/profile'' None"
  have a1: "http_method ?r1 = ''GET''"
    and b1: "path ?r1 = ''/api/user/profile''"
    by (simp_all add: sample_request_def)
  have c1: "resolve_verify_firebase_token (sample_security sample_rejection) sample_provider sample_process 0 ?r1
              = (Inl sample_rejection, [Entered ''security''])"
    by (simp add: resolve_verify_firebase_token_def sample_security_def sample_request_def)
  have a2: "http_method (sample_request ''/api/protected'' (Some ''Bearer tok-ada'')) = ''GET''"
    and b2: "path (sample_request ''/api/protected'' (Some ''Bearer tok-ada'')) = ''/api/protected''"
    by (simp_all add: sample_request_def)
  have c2: "resolve_verify_firebase_token (sample_security sample_rejection) sample_provider sample_process 4000 (sample_request ''/api/protected'' (Some ''Bearer tok-ada''))
              = (Inl \<lparr>status_code = 401,
                       detail = ''Invalid authentication credentials: Token expired''\<rparr>,
                 [Entered ''security'', Entered ''verify_firebase_token''])"
    by (simp add: resolve_verify_firebase_token_def sample_security_def sample_request_def
          verify_firebase_token_def verify_id_token_def sample_provider_def
          sample_process_def)
  from verifier_failure_short_circuits
         [where security = "(sample_security sample_rejection)" and req = ?r1, OF a1 disjI2 [OF b1] c1]
       verifier_failure_short_circuits
         [where security = "(sample_security sample_rejection)" and req = "(sample_request ''/api/protected'' (Some ''Bearer tok-ada''))", OF a2 disjI1 [OF b2] c2]
       a1 b1 c1 a2 b2 c2
  show ?thesis by (simp add: sample_rejection_def)
qed

text \<open>
  C6. A GET request to /api/user/profile that carries a bearer token which passes the
  provider's verification is answered with status 200 and a body that is an object of
  exactly the four fields uid, email, name and picture, in this order, each with the value
  the Identity Record (\<open>get_current_user\<close> of the decoded claim set) has under that key.
\<close>

theorem user_profile_returns_identity_fields:
  assumes "http_method req = ''GET''"
    and "path req = ''/api/user/profile''"
    and "security (authorization req) = Inr creds"
    and "verify_id_token p (firebase_app s) w (credentials creds) = Inr claims"
  shows "\<exists>tr. handle security p s w req
           = Some (\<lparr>status = 200,
                    body = JObj [(''uid'', dict_get (get_current_user claims) ''uid''),
                                 (''email'', dict_get (get_current_user claims) ''email''),
                                 (''name'', dict_get (get_current_user claims) ''name''),
                                 (''picture'', dict_get (get_current_user claims) ''picture'')]\<rparr>,
                   tr)"
proof -
  have "handle security p s w req = Some (serve security p s w GetUserProfile req)"
    using assms(1,2) by (rule handle_profile)
  then show ?thesis
    by (simp add: serve_profile_success [where security = security and req = req,
          OF assms(3,4)] dict_get_get_current_user)
       (simp add: get_current_user_def)
qed

theorem user_profile_returns_identity_fields_witness:
  "http_method (sample_request ''/api/user/profile'' (Some ''Bearer tok-ada'')) = ''GET''
   \<and> path (sample_request ''/api/user/profile'' (Some ''Bearer tok-ada'')) = ''/api/user/profile''
   \<and> (sample_security sample_rejection) (authorization (sample_request ''/api/user/profile'' (Some ''Bearer tok-ada''))) = Inr \<lparr>scheme = ''Bearer'', credentials = ''tok-ada''\<rparr>
   \<and> verify_id_token sample_provider (firebase_app sample_process) 0 (credentials \<lparr>scheme = ''Bearer'', credentials = ''tok-ada''\<rparr>)
       = Inr sample_claims
   \<and> (\<exists>tr. handle (sample_security sample_rejection) sample_provider sample_process 0 (sample_request ''/api/user/profile'' (Some ''Bearer tok-ada''))
         = Some (\<lparr>status = 200,
                  body = JObj [(''uid'', JStr ''u-ada''),
                               (''email'', JStr ''ada@example.org''),
                               (''name'', JNull),
                               (''picture'', JNull)]\<rparr>,
                 tr))"
proof -
  have a: "http_method (sample_request ''/api/user/profile'' (Some ''Bearer tok-ada'')) = ''GET''"
    and b: "path (sample_request ''/api/user/profile'' (Some ''Bearer tok-ada'')) = ''/api/user/profile''"
    by (simp_all add: sample_request_def)
  have c: "(sample_security sample_rejection) (authorization (sample_request ''/api/user/profile'' (Some ''Bearer tok-ada''))) = Inr \<lparr>scheme = ''Bearer'', credentials = ''tok-ada''\<rparr>"
    using sample_accepts [of 0] by simp
  have d: "verify_id_token sample_provider (firebase_app sample_process) 0 (credentials \<lparr>scheme = ''Bearer'', credentials = ''tok-ada''\<rparr>)
             = Inr sample_claims"
    using sample_accepts [of 0] by simp
  have e: "get_current_user sample_claims
             = [(''uid'', JStr ''u-ada''), (''email'', JStr ''ada@example.org''),
                (''name'', JNull), (''picture'', JNull)]"
    by (simp add: get_current_user_def dict_get_def sample_claims_def)
  from user_profile_returns_identity_fields
         [where security = "(sample_security sample_rejection)" and req = "(sample_request ''/api/user/profile'' (Some ''Bearer tok-ada''))", OF a b c d]
  have "\<exists>tr. handle (sample_security sample_rejection) sample_provider sample_process 0 (sample_request ''/api/user/profile'' (Some ''Bearer tok-ada''))
         = Some (\<lparr>status = 200,
                  body = JObj [(''uid'', JStr ''u-ada''),
                               (''email'', JStr ''ada@example.org''),
                               (''name'', JNull),
                               (''picture'', JNull)]\<rparr>,
                 tr)"
    by (simp add: e dict_get_def)
  with a b c d show ?thesis by simp
qed

text \<open>
  C7. A GET request to / or to /health is answered with status 200 and the static payload
  of its handler, whatever its Authorization header, the bearer scheme, the provider and
  the process state are; its trace holds the handler alone, so neither the bearer scheme
  nor the Token Verifier is entered.
\<close>

theorem unprotected_routes_static:
  assumes "http_method req = ''GET''"
  shows "(path req = ''/'' \<longrightarrow>
           handle security p s w req
             = Some (\<lparr>status = 200,
                      body = JObj [(''message'', JStr ''HealthScan AI Backend API'')]\<rparr>,
                     [Entered ''read_root'']))
       \<and> (path req = ''/health'' \<longrightarrow>
           handle security p s w req
             = Some (\<lparr>status = 200, body = JObj [(''status'', JStr ''healthy'')]\<rparr>,
                     [Entered ''health_check'']))"
  using assms
  by (simp add: handle_root handle_health serve_def json_response_def read_root_def
        health_check_def)

theorem unprotected_routes_static_witness:
  "http_method (sample_request ''/'' None) = ''GET''
   \<and> path (sample_request ''/'' None) = ''/''
   \<and> handle (sample_security sample_rejection) sample_provider \<lparr>firebase_app = None, stdout = []\<rparr> 0
        (sample_request ''/'' None)
       = Some (\<lparr>status = 200,
                body = JObj [(''message'', JStr ''HealthScan AI Backend API'')]\<rparr>,
               [Entered ''read_root''])
   \<and> http_method (sample_request ''/health'' (Some ''Bearer forged'')) = ''GET''
   \<and> path (sample_request ''/health'' (Some ''Bearer forged'')) = ''/health''
   \<and> handle (sample_security sample_rejection) sample_provider sample_process 0
        (sample_request ''/health'' (Some ''Bearer forged''))
       = Some (\<lparr>status = 200, body = JObj [(''status'', JStr ''healthy'')]\<rparr>,
               [Entered ''health_check''])"
proof -
  let ?r1 = "sample_request ''/'' None"
  let ?r2 = "sample_request ''/health'' (Some ''Bearer forged'')"
  have a1: "http_method ?r1 = ''GET''" and b1: "path ?r1 = ''/''"
    by (simp_all add: sample_request_def)
  have a2: "http_method ?r2 = ''GET''" and b2: "path ?r2 = ''/health''"
    by (simp_all add: sample_request_def)
  from unprotected_routes_static
         [where req = ?r1 and security = "(sample_security sample_rejection)" and p = sample_provider
            and s = "\<lparr>firebase_app = None, stdout = []\<rparr>" and w = 0, OF a1]
       unprotected_routes_static
         [where req = ?r2 and security = "(sample_security sample_rejection)" and p = sample_provider
            and s = sample_process and w = 0, OF a2]
       a1 b1 a2 b2
  show ?thesis by simp
qed

text \<open>
  C9. For every decoded claim set, \<open>get_current_user\<close> returns a dictionary with exactly
  the four keys uid, email, name and picture. A key whose claim is missing from the token
  is still present and bound to \<open>None\<close>, and a claim under any other key does not appear
  in the result.
\<close>

theorem get_current_user_four_keys:
  "map fst (get_current_user token_data) = [''uid'', ''email'', ''name'', ''picture'']
   \<and> (k \<in> {''uid'', ''email'', ''name'', ''picture''} \<longrightarrow>
        map_of (get_current_user token_data) k = Some (dict_get token_data k))
   \<and> (k \<in> {''uid'', ''email'', ''name'', ''picture''} \<longrightarrow> map_of token_data k = None \<longrightarrow>
        map_of (get_current_user token_data) k = Some JNull)
   \<and> (k \<notin> {''uid'', ''email'', ''name'', ''picture''} \<longrightarrow>
        map_of (get_current_user token_data) k = None)"
  by (auto simp: get_current_user_def dict_get_def)

theorem get_current_user_four_keys_witness:
  "map fst (get_current_user [(''uid'', JStr ''u1''), (''admin'', JBool True)])
     = [''uid'', ''email'', ''name'', ''picture'']
   \<and> map_of (get_current_user [(''uid'', JStr ''u1''), (''admin'', JBool True)]) ''uid''
     = Some (JStr ''u1'')
   \<and> map_of [(''uid'', JStr ''u1''), (''admin'', JBool True)] ''email'' = None
   \<and> map_of (get_current_user [(''uid'', JStr ''u1''), (''admin'', JBool True)]) ''email''
     = Some JNull
   \<and> map_of (get_current_user [(''uid'', JStr ''u1''), (''admin'', JBool True)]) ''admin''
     = None"
  using get_current_user_four_keys
          [of "[(''uid'', JStr ''u1''), (''admin'', JBool True)]" "''uid''"]
        get_current_user_four_keys
          [of "[(''uid'', JStr ''u1''), (''admin'', JBool True)]" "''email''"]
        get_current_user_four_keys
          [of "[(''uid'', JStr ''u1''), (''admin'', JBool True)]" "''admin''"]
  by (simp add: dict_get_def)

text \<open>
  C10. For a token that passes verification with the same decoded claim set on both
  requests, the object under \<open>user\<close> in the body of GET /api/protected is the whole body
  of GET /api/user/profile.
\<close>

theorem protected_user_is_profile_body:
  assumes "http_method req1 = ''GET''" and "path req1 = ''/api/protected''"
    and "http_method req2 = ''GET''" and "path req2 = ''/api/user/profile''"
    and "security (authorization req1) = Inr creds"
    and "security (authorization req2) = Inr creds"
    and "verify_id_token p (firebase_app s) w1 (credentials creds) = Inr claims"
    and "verify_id_token p (firebase_app s) w2 (credentials creds) = Inr claims"
  shows "\<exists>r1 t1 r2 t2.
           handle security p s w1 req1 = Some (r1, t1)
         \<and> handle security p s w2 req2 = Some (r2, t2)
         \<and> status r1 = 200 \<and> status r2 = 200
         \<and> json_field (body r1) ''user'' = Some (body r2)"
proof -
  have "handle security p s w1 req1 = Some (serve security p s w1 ProtectedRoute req1)"
    using assms(1,2) by (rule handle_protected)
  moreover
  have "handle security p s w2 req2 = Some (serve security p s w2 GetUserProfile req2)"
    using assms(3,4) by (rule handle_profile)
  ultimately show ?thesis
    by (simp add:
          serve_protected_success [where security = security and req = req1, OF assms(5,7)]
          serve_profile_success [where security = security and req = req2, OF assms(6,8)]
          json_field_def)
qed

theorem protected_user_is_profile_body_witness:
  "http_method (sample_request ''/api/protected'' (Some ''Bearer tok-ada'')) = ''GET'' \<and> path (sample_request ''/api/protected'' (Some ''Bearer tok-ada'')) = ''/api/protected''
   \<and> http_method (sample_request ''/api/user/profile'' (Some ''Bearer tok-ada'')) = ''GET'' \<and> path (sample_request ''/api/user/profile'' (Some ''Bearer tok-ada'')) = ''/api/user/profile''
   \<and> (sample_security sample_rejection) (authorization (sample_request ''/api/protected'' (Some ''Bearer tok-ada''))) = Inr \<lparr>scheme = ''Bearer'', credentials = ''tok-ada''\<rparr>
   \<and> (sample_security sample_rejection) (authorization (sample_request ''/api/user/profile'' (Some ''Bearer tok-ada''))) = Inr \<lparr>scheme = ''Bearer'', credentials = ''tok-ada''\<rparr>
   \<and> verify_id_token sample_provider (firebase_app sample_process) 0 (credentials \<lparr>scheme = ''Bearer'', credentials = ''tok-ada''\<rparr>)
       = Inr sample_claims
   \<and> verify_id_token sample_provider (firebase_app sample_process) 60 (credentials \<lparr>scheme = ''Bearer'', credentials = ''tok-ada''\<rparr>)
       = Inr sample_claims
   \<and> (\<exists>r1 t1 r2 t2.
         handle (sample_security sample_rejection) sample_provider sample_process 0 (sample_request ''/api/protected'' (Some ''Bearer tok-ada'')) = Some (r1, t1)
       \<and> handle (sample_security sample_rejection) sample_provider sample_process 60 (sample_request ''/api/user/profile'' (Some ''Bearer tok-ada'')) = Some (r2, t2)
       \<and> status r1 = 200 \<and> status r2 = 200
       \<and> json_field (body r1) ''user'' = Some (body r2))"
proof -
  have a1: "http_method (sample_request ''/api/protected'' (Some ''Bearer tok-ada'')) = ''GET''" and b1: "path (sample_request ''/api/protected'' (Some ''Bearer tok-ada'')) = ''/api/protected''"
    and a2: "http_method (sample_request ''/api/user/profile'' (Some ''Bearer tok-ada'')) = ''GET''" and b2: "path (sample_request ''/api/user/profile'' (Some ''Bearer tok-ada'')) = ''/api/user/profile''"
    by (simp_all add: sample_request_def)
  have c1: "(sample_security sample_rejection) (authorization (sample_request ''/api/protected'' (Some ''Bearer tok-ada''))) = Inr \<lparr>scheme = ''Bearer'', credentials = ''tok-ada''\<rparr>"
    and c2: "(sample_security sample_rejection) (authorization (sample_request ''/api/user/profile'' (Some ''Bearer tok-ada''))) = Inr \<lparr>scheme = ''Bearer'', credentials = ''tok-ada''\<rparr>"
    using sample_accepts [of 0] by simp_all
  have d1: "verify_id_token sample_provider (firebase_app sample_process) 0
              (credentials \<lparr>scheme = ''Bearer'', credentials = ''tok-ada''\<rparr>) = Inr sample_claims"
    and d2: "verify_id_token sample_provider (firebase_app sample_process) 60
              (credentials \<lparr>scheme = ''Bearer'', credentials = ''tok-ada''\<rparr>) = Inr sample_claims"
    using sample_accepts [of 0] sample_accepts [of 60] by simp_all
  from protected_user_is_profile_body
         [where security = "(sample_security sample_rejection)" and ?req1.0 = "(sample_request ''/api/protected'' (Some ''Bearer tok-ada''))" and ?req2.0 = "(sample_request ''/api/user/profile'' (Some ''Bearer tok-ada''))",
          OF a1 b1 a2 b2 c1 c2 d1 d2]
       a1 b1 a2 b2 c1 c2 d1 d2
  show ?thesis by simp
qed

subsection \<open>Start without the credential file\<close>

text \<open>
  When no file exists at the credential path, the start raises nothing: it leaves the
  backend uninitialised and prints the warning.
\<close>

lemma startup_without_credential_file:
  "\<not> path_exists os (cred_path os) \<Longrightarrow>
   startup os
     = Inr \<lparr>firebase_app = None,
            stdout = [''Warning: Firebase Admin credentials not found. Authentication will be disabled.'']\<rparr>"
  by (simp add: startup_def)

text \<open>
  In that state every request whose bearer credentials reach the Token Verifier is answered
  with 401, whatever the token. A request the bearer scheme itself rejects is answered
  with the scheme's own exception, whose status the source does not set.
\<close>

lemma uninitialised_backend_rejects:
  assumes "firebase_app s = None"
    and "http_method req = ''GET''"
    and "path req = ''/api/protected'' \<or> path req = ''/api/user/profile''"
    and "security (authorization req) = Inr creds"
  shows "handle security p s w req
           = Some (\<lparr>status = 401,
                    body = JObj [(''detail'',
                      JStr (''Invalid authentication credentials: ''
                            @ exc_str (no_app_error p)))]\<rparr>,
                   [Entered ''security'', Entered ''verify_firebase_token''])"
proof -
  have res: "resolve_get_current_user security p s w req
               = (Inl \<lparr>status_code = 401,
                        detail = ''Invalid authentication credentials: ''
                                 @ exc_str (no_app_error p)\<rparr>,
                  [Entered ''security'', Entered ''verify_firebase_token''])"
    using assms(1,4)
    by (simp add: resolve_get_current_user_def resolve_verify_firebase_token_def
          verify_firebase_token_def verify_id_token_def)
  from assms(3) show ?thesis
  proof
    assume "path req = ''/api/protected''"
    with assms(2) have "handle security p s w req
        = Some (serve security p s w ProtectedRoute req)"
      by (rule handle_protected)
    then show ?thesis by (simp add: serve_def res http_exception_response_def)
  next
    assume "path req = ''/api/user/profile''"
    with assms(2) have "handle security p s w req
        = Some (serve security p s w GetUserProfile req)"
      by (rule handle_profile)
    then show ?thesis by (simp add: serve_def res http_exception_response_def)
  qed
qed

end
